theory Spec2Isabelle
  imports Complex_Main
begin

section \<open>Identifiers, pairs and predictions\<close>

text \<open>
  Records are keyed by strings: a QID on the Wikidata side, a TID on the target side. A
  prediction series (a \<^verbatim>\<open>pandas.Series\<close> with a \<^verbatim>\<open>(QID, TID)\<close> multi-index) is the list
  of its rows, each row an index label with a score.
\<close>

type_synonym qid = string
type_synonym tid = string
type_synonym link = string
type_synonym score = real
type_synonym prediction = "(qid \<times> tid) \<times> score"
type_synonym predictions = "prediction list"

section \<open>\<^verbatim>\<open>linker/classify.py\<close>: thresholding and deduplication\<close>

text \<open>
  \<^verbatim>\<open>predictions[predictions >= threshold]\<close>: boolean-mask selection keeps the rows whose
  value reaches the threshold, in order.
\<close>

definition at_least_threshold :: "score \<Rightarrow> predictions \<Rightarrow> predictions" where
  "at_least_threshold threshold predictions =
     filter (\<lambda>p. snd p \<ge> threshold) predictions"

text \<open>
  \<^verbatim>\<open>Series.drop_duplicates()\<close> with its default \<^verbatim>\<open>keep='first'\<close>: a row is dropped when
  its \<^emph>\<open>value\<close> has been seen in an earlier row; the index label takes no part in the
  comparison.
\<close>

fun drop_duplicates_seen :: "score list \<Rightarrow> predictions \<Rightarrow> predictions" where
  "drop_duplicates_seen seen [] = []"
| "drop_duplicates_seen seen (p # ps) =
     (if snd p \<in> set seen then drop_duplicates_seen seen ps
      else p # drop_duplicates_seen (snd p # seen) ps)"

definition drop_duplicates :: "predictions \<Rightarrow> predictions" where
  "drop_duplicates predictions = drop_duplicates_seen [] predictions"

text \<open>The value yielded per chunk by \<^verbatim>\<open>execute\<close> (lines 151 and 231).\<close>

definition execute_yield :: "score \<Rightarrow> predictions \<Rightarrow> predictions" where
  "execute_yield threshold predictions =
     drop_duplicates (at_least_threshold threshold predictions)"

text \<open>
  The same operation as the specification words it, for comparison: a row is dropped when
  its \<^emph>\<open>pair\<close>, the index label, has been seen in an earlier row.
\<close>

fun drop_duplicate_pairs_seen :: "(qid \<times> tid) list \<Rightarrow> predictions \<Rightarrow> predictions" where
  "drop_duplicate_pairs_seen seen [] = []"
| "drop_duplicate_pairs_seen seen (p # ps) =
     (if fst p \<in> set seen then drop_duplicate_pairs_seen seen ps
      else p # drop_duplicate_pairs_seen (fst p # seen) ps)"

definition threshold_then_drop_duplicate_pairs :: "score \<Rightarrow> predictions \<Rightarrow> predictions" where
  "threshold_then_drop_duplicate_pairs threshold predictions =
     drop_duplicate_pairs_seen [] (at_least_threshold threshold predictions)"

section \<open>\<^verbatim>\<open>validator/checks.py\<close>: the link check\<close>

text \<open>
  \<^verbatim>\<open>_assess(source, target, to_deprecate, to_add)\<close>. The per-QID data gathered from Wikidata
  is a dictionary with the key \<^verbatim>\<open>'identifiers'\<close> (a set of target identifiers) and, when
  links were found, the key \<^verbatim>\<open>'links'\<close> (a set of URLs); \<^verbatim>\<open>data.get('links')\<close> is
  \<^verbatim>\<open>None\<close> otherwise. The target links are a \<^verbatim>\<open>defaultdict(list)\<close> from target identifier
  to its URLs. Both outputs are \<^verbatim>\<open>defaultdict(set)\<close>: reading a missing key creates it
  with the empty set.
\<close>

record wikidata_data =
  identifiers :: "tid list"
  links :: "link set option"

record outputs =
  to_deprecate :: "tid \<rightharpoonup> qid set"
  to_add :: "qid \<rightharpoonup> link set"

definition defaultdict_item :: "('k \<rightharpoonup> 'v set) \<Rightarrow> 'k \<Rightarrow> 'v set" where
  "defaultdict_item d k = (case d k of None \<Rightarrow> {} | Some s \<Rightarrow> s)"

definition shared_links :: "link set \<Rightarrow> link list \<Rightarrow> link set" where
  "shared_links source_links target_links = source_links \<inter> set target_links"

definition extra_links :: "link set \<Rightarrow> link list \<Rightarrow> link set" where
  "extra_links source_links target_links = set target_links - source_links"

text \<open>The body of the inner loop, for one identifier statement \<^verbatim>\<open>(qid, target_id)\<close>.\<close>

definition assess_identifier ::
  "(tid \<rightharpoonup> link list) \<Rightarrow> qid \<Rightarrow> link set \<Rightarrow> outputs \<Rightarrow> tid \<Rightarrow> outputs" where
  "assess_identifier target qid source_links out target_id =
     (case target target_id of
        None \<Rightarrow> out
      | Some target_links \<Rightarrow>
          if target_links = [] then out
          else
            let out1 =
                  (if shared_links source_links target_links = {}
                   then out\<lparr>to_deprecate := (to_deprecate out)
                          (target_id \<mapsto> insert qid (defaultdict_item (to_deprecate out) target_id))\<rparr>
                   else out)
            in if extra_links source_links target_links \<noteq> {}
               then out1\<lparr>to_add := (to_add out1)
                      (qid \<mapsto> defaultdict_item (to_add out1) qid
                                 \<union> extra_links source_links target_links)\<rparr>
               else out1)"

primrec assess_identifiers ::
  "(tid \<rightharpoonup> link list) \<Rightarrow> qid \<Rightarrow> link set \<Rightarrow> outputs \<Rightarrow> tid list \<Rightarrow> outputs" where
  "assess_identifiers target qid source_links out [] = out"
| "assess_identifiers target qid source_links out (target_id # rest) =
     assess_identifiers target qid source_links
       (assess_identifier target qid source_links out target_id) rest"

text \<open>The body of the outer loop: a QID without links (absent or empty) is skipped.\<close>

definition assess_qid ::
  "(tid \<rightharpoonup> link list) \<Rightarrow> outputs \<Rightarrow> qid \<times> wikidata_data \<Rightarrow> outputs" where
  "assess_qid target out item =
     (case links (snd item) of
        None \<Rightarrow> out
      | Some source_links \<Rightarrow>
          if source_links = {} then out
          else assess_identifiers target (fst item) source_links out (identifiers (snd item)))"

primrec assess ::
  "(qid \<times> wikidata_data) list \<Rightarrow> (tid \<rightharpoonup> link list) \<Rightarrow> outputs \<Rightarrow> outputs" where
  "assess [] target out = out"
| "assess (item # source) target out = assess source target (assess_qid target out item)"

text \<open>\<^verbatim>\<open>check_links\<close> starts the check with two empty \<^verbatim>\<open>defaultdict(set)\<close>.\<close>

definition empty_outputs :: outputs where
  "empty_outputs = \<lparr>to_deprecate = Map.empty, to_add = Map.empty\<rparr>"

section \<open>Exceptions\<close>

text \<open>The Python exceptions that the modelled functions raise, as values.\<close>

datatype error =
    AttributeError
  | KeyError
  | TypeError
  | ValueError string
  | NotImplementedError string

section \<open>\<^verbatim>\<open>linker/classify.py\<close>: missing feature columns\<close>

text \<open>
  A feature matrix is a \<^verbatim>\<open>pandas.DataFrame\<close>: an index of pairs and a sequence of labelled
  columns. \<^verbatim>\<open>len(df)\<close> is the number of rows, \<^verbatim>\<open>df.shape[1]\<close> the number of columns. The
  type of the cells is left open.
\<close>

record 'v feature_vectors =
  fv_index :: "(qid \<times> tid) list"
  fv_columns :: "(string \<times> 'v list) list"

text \<open>
  \<^verbatim>\<open>df[label] = values\<close>: when a column carries the label already its values are
  replaced in place, otherwise a new column is appended on the right.
\<close>

definition setitem :: "'v feature_vectors \<Rightarrow> string \<Rightarrow> 'v list \<Rightarrow> 'v feature_vectors" where
  "setitem df label values =
     (if label \<in> fst ` set (fv_columns df)
      then df\<lparr>fv_columns :=
              map (\<lambda>c. if fst c = label then (label, values) else c) (fv_columns df)\<rparr>
      else df\<lparr>fv_columns := fv_columns df @ [(label, values)]\<rparr>)"

text \<open>The decimal rendering of a non-negative integer in an f-string.\<close>

definition digit_char :: "nat \<Rightarrow> char" where
  "digit_char d = char_of (48 + d)"

fun str_nat :: "nat \<Rightarrow> string" where
  "str_nat n = (if n < 10 then [digit_char n] else str_nat (n div 10) @ [digit_char (n mod 10)])"

declare str_nat.simps [simp del]

text \<open>
  The classifier object loaded from the model file. The classes that
  \<^verbatim>\<open>_add_missing_feature_columns\<close> tests with \<^verbatim>\<open>isinstance\<close> carry the number that the matching
  branch reads from the kernel (\<^verbatim>\<open>len(kernel._binarizers)\<close>, \<^verbatim>\<open>kernel.coef_.shape[1]\<close>,
  \<^verbatim>\<open>kernel.input_shape[1]\<close>). Any other object carries its \<^verbatim>\<open>__name__\<close> attribute when it has
  one: a class or a function has, an instance of a class has not.
\<close>

datatype classifier =
    NaiveBayesClassifier nat
  | SVCClassifier nat
  | SVMClassifier nat
  | SingleLayerPerceptron nat
  | MultiLayerPerceptron nat
  | OtherObject "string option"

text \<open>
  \<^verbatim>\<open>repr\<close> of a set of plain strings, its elements in the given iteration order, as the
  f-string of the error message formats \<^verbatim>\<open>set(constants.CLASSIFIERS)\<close>.
\<close>

fun join_str :: "string \<Rightarrow> string list \<Rightarrow> string" where
  "join_str sep [] = []"
| "join_str sep [x] = x"
| "join_str sep (x # y # ys) = x @ sep @ join_str sep (y # ys)"

definition repr_set :: "string list \<Rightarrow> string" where
  "repr_set xs =
     (if xs = [] then ''set()''
      else ''{'' @ join_str '', '' (map (\<lambda>x. [CHR 0x27] @ x @ [CHR 0x27]) xs) @ ''}'')"

text \<open>
  The \<^verbatim>\<open>if/elif/else\<close> chain at the head of \<^verbatim>\<open>_add_missing_feature_columns\<close>. The keys of
  \<^verbatim>\<open>constants.CLASSIFIERS\<close> are a parameter. In the last branch the message is built first,
  and reading \<^verbatim>\<open>classifier.__name__\<close> raises when the object has no such attribute.
\<close>

definition expected_features_of :: "string list \<Rightarrow> classifier \<Rightarrow> error + nat" where
  "expected_features_of CLASSIFIERS classifier =
     (case classifier of
        NaiveBayesClassifier n \<Rightarrow> Inr n
      | SVCClassifier n \<Rightarrow> Inr n
      | SVMClassifier n \<Rightarrow> Inr n
      | SingleLayerPerceptron n \<Rightarrow> Inr n
      | MultiLayerPerceptron n \<Rightarrow> Inr n
      | OtherObject None \<Rightarrow> Inl AttributeError
      | OtherObject (Some name) \<Rightarrow>
          Inl (ValueError (''Unsupported classifier: '' @ name @ ''. It should be one of ''
                 @ repr_set CLASSIFIERS)))"

text \<open>\<^verbatim>\<open>range(n)\<close> for a Python integer: empty when \<open>n \<le> 0\<close>.\<close>

definition range_py :: "int \<Rightarrow> nat list" where
  "range_py n = (if n \<le> 0 then [] else [0 ..< nat n])"

text \<open>
  The loop body, \<^verbatim>\<open>feature_vectors[f'missing_{i}'] = full(len(feature_vectors), FEATURE_MISSING_VALUE)\<close>,
  and the loop. The missing-value constant is a parameter.
\<close>

definition add_missing_column :: "'v \<Rightarrow> 'v feature_vectors \<Rightarrow> nat \<Rightarrow> 'v feature_vectors" where
  "add_missing_column FEATURE_MISSING_VALUE feature_vectors i =
     setitem feature_vectors (''missing_'' @ str_nat i)
       (replicate (length (fv_index feature_vectors)) FEATURE_MISSING_VALUE)"

primrec add_missing_columns :: "'v \<Rightarrow> 'v feature_vectors \<Rightarrow> nat list \<Rightarrow> 'v feature_vectors" where
  "add_missing_columns FEATURE_MISSING_VALUE feature_vectors [] = feature_vectors"
| "add_missing_columns FEATURE_MISSING_VALUE feature_vectors (i # rest) =
     add_missing_columns FEATURE_MISSING_VALUE
       (add_missing_column FEATURE_MISSING_VALUE feature_vectors i) rest"

text \<open>
  \<^verbatim>\<open>_add_missing_feature_columns(classifier, feature_vectors)\<close> changes the data frame in
  place and returns nothing; the model returns the data frame as it is afterwards, or the
  exception raised.
\<close>

definition add_missing_feature_columns ::
  "string list \<Rightarrow> 'v \<Rightarrow> classifier \<Rightarrow> 'v feature_vectors \<Rightarrow> error + 'v feature_vectors" where
  "add_missing_feature_columns CLASSIFIERS FEATURE_MISSING_VALUE classifier feature_vectors =
     (case expected_features_of CLASSIFIERS classifier of
        Inl e \<Rightarrow> Inl e
      | Inr expected_features \<Rightarrow>
          let actual_features = length (fv_columns feature_vectors) in
          if expected_features \<noteq> actual_features
          then Inr (add_missing_columns FEATURE_MISSING_VALUE feature_vectors
                      (range_py (int expected_features - int actual_features)))
          else Inr feature_vectors)"

section \<open>\<^verbatim>\<open>linker/classify.py\<close>: post-classification rules\<close>

text \<open>
  The Wikidata and target chunks are data frames indexed by identifier. A cell of a record
  is a collection of strings (names, tokens, URLs) or a missing value. A missing value is a
  float NaN, and the code tells two kinds apart, because it tests with \<^verbatim>\<open>is\<close>: the object
  \<^verbatim>\<open>numpy.nan\<close> itself, and any other NaN object, such as the one that \<^verbatim>\<open>pd.read_pickle\<close>
  gives back for a missing cell of a cached chunk. The type of the strings is left open.
  \<^verbatim>\<open>df.get(column)\<close> is \<^verbatim>\<open>None\<close> when the frame has no such column; \<^verbatim>\<open>df.loc[id][column]\<close>
  raises \<^verbatim>\<open>KeyError\<close> when the identifier or the column is not there.
\<close>

datatype 's cell = Nan | Other_nan | Values "'s list"

record 's chunk =
  ch_columns :: "string list"
  ch_rows :: "string \<rightharpoonup> (string \<rightharpoonup> 's cell)"

definition loc_item :: "'s chunk \<Rightarrow> string \<Rightarrow> string \<Rightarrow> error + 's cell" where
  "loc_item df ident column =
     (case ch_rows df ident of
        None \<Rightarrow> Inl KeyError
      | Some row \<Rightarrow> (case row column of None \<Rightarrow> Inl KeyError | Some c \<Rightarrow> Inr c))"

text \<open>
  One half of the loop body of \<^verbatim>\<open>_zero_when_not_exact_match\<close>: when the frame has the
  column and the record's value \<^verbatim>\<open>is not nan\<close>, the set of the value's elements is added to
  the values collected so far. Only the object \<^verbatim>\<open>numpy.nan\<close> is skipped: any other NaN
  passes the test, and \<^verbatim>\<open>set(values)\<close> raises \<^verbatim>\<open>TypeError\<close> on a float.
\<close>

definition update_values :: "'s chunk \<Rightarrow> string \<Rightarrow> string \<Rightarrow> 's set \<Rightarrow> error + 's set" where
  "update_values df ident column collected =
     (if column \<in> set (ch_columns df)
      then (case loc_item df ident column of
              Inl e \<Rightarrow> Inl e
            | Inr Nan \<Rightarrow> Inr collected
            | Inr Other_nan \<Rightarrow> Inl TypeError
            | Inr (Values vs) \<Rightarrow> Inr (collected \<union> set vs))
      else Inr collected)"

fun collect_values ::
  "'s chunk \<Rightarrow> 's chunk \<Rightarrow> qid \<Rightarrow> tid \<Rightarrow> string list \<Rightarrow> 's set \<times> 's set
     \<Rightarrow> error + 's set \<times> 's set" where
  "collect_values wikidata target qid tid [] collected = Inr collected"
| "collect_values wikidata target qid tid (column # rest) (wd_values, target_values) =
     (case update_values wikidata qid column wd_values of
        Inl e \<Rightarrow> Inl e
      | Inr wd_values' \<Rightarrow>
          (case update_values target tid column target_values of
             Inl e \<Rightarrow> Inl e
           | Inr target_values' \<Rightarrow>
               collect_values wikidata target qid tid rest (wd_values', target_values')))"

text \<open>The \<^verbatim>\<open>fields\<close> argument is a single string or a list of strings.\<close>

datatype fields = Field string | Fields "string list"

definition zero_when_not_exact_match ::
  "prediction \<Rightarrow> fields \<Rightarrow> 's chunk \<Rightarrow> 's chunk \<Rightarrow> error + score" where
  "zero_when_not_exact_match prediction block_fields wikidata target =
     (let fs = (case block_fields of Field f \<Rightarrow> [f] | Fields fs \<Rightarrow> fs);
          qid = fst (fst prediction);
          tid = snd (fst prediction)
      in case collect_values wikidata target qid tid fs ({}, {}) of
           Inl e \<Rightarrow> Inl e
         | Inr (wd_values, target_values) \<Rightarrow>
             Inr (if wd_values \<inter> target_values = {} then 0 else snd prediction))"

text \<open>
  \<^verbatim>\<open>pd.DataFrame(predictions).apply(f, axis=1)\<close>: the function is applied to every row in
  order, the results form a series over the same index, and the first exception ends
  the run.
\<close>

fun apply_rows :: "(prediction \<Rightarrow> error + score) \<Rightarrow> predictions \<Rightarrow> error + predictions" where
  "apply_rows f [] = Inr []"
| "apply_rows f (p # ps) =
     (case f p of
        Inl e \<Rightarrow> Inl e
      | Inr s \<Rightarrow>
          (case apply_rows f ps of
             Inl e \<Rightarrow> Inl e
           | Inr rest \<Rightarrow> Inr ((fst p, s) # rest)))"

definition post_classification_blocking ::
  "predictions \<Rightarrow> 's chunk \<Rightarrow> 's chunk \<Rightarrow> string list \<Rightarrow> error + predictions" where
  "post_classification_blocking predictions wd_chunk target_chunk post_block_fields =
     (if post_block_fields \<noteq> []
      then apply_rows
             (\<lambda>p. zero_when_not_exact_match p (Fields post_block_fields) wd_chunk target_chunk)
             predictions
      else Inr predictions)"

text \<open>
  A URL is a Python \<^verbatim>\<open>str\<close>, a sequence of Unicode code points. \<open>str_of\<close> is the \<^verbatim>\<open>str\<close> with
  the characters of a byte string, which is what identifiers and ASCII literals are.
\<close>

type_synonym str = "nat list"

definition str_of :: "string \<Rightarrow> str" where
  "str_of s = map of_char s"

text \<open>\<^verbatim>\<open>'wikidata' in u\<close>: the substring test.\<close>

fun is_substring :: "'a list \<Rightarrow> 'a list \<Rightarrow> bool" where
  "is_substring sub [] = (sub = [])"
| "is_substring sub (c # cs) = (take (length sub) (c # cs) = sub \<or> is_substring sub cs)"

text \<open>
  \<^verbatim>\<open>re.search(r'(Q\d+)$', u)\<close>. On a \<^verbatim>\<open>str\<close>, \<^verbatim>\<open>\d\<close> matches every Unicode decimal digit: the
  ASCII digits \<^verbatim>\<open>0\<close> to \<^verbatim>\<open>9\<close> (code points 48 to 57), which are the only ones in the ASCII
  range, and the decimal digits of other scripts, which the Unicode database of the
  interpreter lists and which are a parameter here. A match at the head of a string is a
  \<^verbatim>\<open>Q\<close> (code point 81), then as many digits as there are (at least one), then the end of the
  string or a last newline (code point 10). The search takes the leftmost position with a
  match. The result is the group \<^verbatim>\<open>(Q\d+)\<close>.
\<close>

definition is_digit :: "(nat \<Rightarrow> bool) \<Rightarrow> nat \<Rightarrow> bool" where
  "is_digit other_decimal c = (48 \<le> c \<and> c \<le> 57 \<or> 127 < c \<and> other_decimal c)"

definition match_qid :: "(nat \<Rightarrow> bool) \<Rightarrow> str \<Rightarrow> str option" where
  "match_qid other_decimal s =
     (case s of
        [] \<Rightarrow> None
      | c # cs \<Rightarrow>
          if c = 81 \<and> takeWhile (is_digit other_decimal) cs \<noteq> []
             \<and> (dropWhile (is_digit other_decimal) cs = []
                  \<or> dropWhile (is_digit other_decimal) cs = [10])
          then Some (c # takeWhile (is_digit other_decimal) cs)
          else None)"

fun search_qid :: "(nat \<Rightarrow> bool) \<Rightarrow> str \<Rightarrow> str option" where
  "search_qid other_decimal [] = None"
| "search_qid other_decimal (c # cs) =
     (case match_qid other_decimal (c # cs) of
        Some g \<Rightarrow> Some g
      | None \<Rightarrow> search_qid other_decimal cs)"

text \<open>The name of the URL column, \<^verbatim>\<open>keys.URL\<close> (\<^verbatim>\<open>URL = 'url'\<close> in \<^verbatim>\<open>commons/constants.py\<close>).\<close>

definition URL :: string where
  "URL = ''url''"

text \<open>
  The loop of \<^verbatim>\<open>_one_when_wikidata_link_correct\<close> over the record's URLs: the first URL that
  is not empty, contains \<^verbatim>\<open>wikidata\<close> and has a match decides the returned score; without
  such a URL the loop ends and nothing is returned from it.
\<close>

fun wikidata_link_loop :: "(nat \<Rightarrow> bool) \<Rightarrow> qid \<Rightarrow> str list \<Rightarrow> score option" where
  "wikidata_link_loop other_decimal qid [] = None"
| "wikidata_link_loop other_decimal qid (u # urls) =
     (if u \<noteq> [] \<and> is_substring (str_of ''wikidata'') u
      then (case search_qid other_decimal u of
              Some g \<Rightarrow> Some (if str_of qid = g then 1 else 0)
            | None \<Rightarrow> wikidata_link_loop other_decimal qid urls)
      else wikidata_link_loop other_decimal qid urls)"

text \<open>
  A NaN, whichever object it is, is a float other than zero, so \<^verbatim>\<open>if urls:\<close> lets it pass
  and the \<^verbatim>\<open>for\<close> loop raises \<^verbatim>\<open>TypeError\<close> on it; an empty collection skips the loop.
\<close>

definition one_when_wikidata_link_correct ::
  "(nat \<Rightarrow> bool) \<Rightarrow> prediction \<Rightarrow> str chunk \<Rightarrow> error + score" where
  "one_when_wikidata_link_correct other_decimal prediction target =
     (let qid = fst (fst prediction);
          tid = snd (fst prediction)
      in case loc_item target tid URL of
           Inl e \<Rightarrow> Inl e
         | Inr Nan \<Rightarrow> Inl TypeError
         | Inr Other_nan \<Rightarrow> Inl TypeError
         | Inr (Values urls) \<Rightarrow>
             (case wikidata_link_loop other_decimal qid urls of
                Some s \<Rightarrow> Inr s
              | None \<Rightarrow> Inr (snd prediction)))"

section \<open>\<^verbatim>\<open>linker/evaluate.py\<close>: nested cross-validation with grid search\<close>

text \<open>
  \<^verbatim>\<open>nested_k_fold_with_grid_search\<close> works through its collaborators: it builds the training
  dataset, initialises the model, prepares the stratified folds, and then fits and scores a
  grid search on every outer fold. The model records each of these steps as an event, in
  order. The collaborators are parameters: the outer folds of the built dataset, and for
  a fold the best score with the best estimator of the fit, and the test score. The two
  classifier names come from \<^verbatim>\<open>commons/keys.py\<close> and are parameters as well.
\<close>

record keys =
  SINGLE_LAYER_PERCEPTRON :: string
  MULTI_LAYER_PERCEPTRON :: string

datatype 'f event =
    Build_dataset
  | Init_model
  | Prepare_stratified_k_fold
  | Grid_search_fit 'f
  | Grid_search_score 'f

record ('f, 'm) collaborators =
  outer_folds :: "'f list"
  grid_search_fit :: "'f \<Rightarrow> real \<times> 'm"
  grid_search_score :: "'f \<Rightarrow> real"

text \<open>
  The result dictionary, a \<^verbatim>\<open>defaultdict(list)\<close> with the keys \<^verbatim>\<open>train_<scoring>\<close>,
  \<^verbatim>\<open>test_<scoring>\<close> and \<^verbatim>\<open>best_models\<close>.
\<close>

record 'm cv_result =
  train_scores :: "real list"
  test_scores :: "real list"
  best_models :: "'m list"

fun outer_loop ::
  "('f, 'm) collaborators \<Rightarrow> 'f list \<Rightarrow> 'm cv_result \<times> 'f event list
     \<Rightarrow> 'm cv_result \<times> 'f event list" where
  "outer_loop env [] state = state"
| "outer_loop env (fld # rest) (result, events) =
     (let (best_score, best_estimator) = grid_search_fit env fld;
          test_score = grid_search_score env fld
      in outer_loop env rest
           (result\<lparr>train_scores := train_scores result @ [best_score],
                   test_scores := test_scores result @ [test_score],
                   best_models := best_models result @ [best_estimator]\<rparr>,
            events @ [Grid_search_fit fld, Grid_search_score fld]))"

definition nested_k_fold_with_grid_search ::
  "keys \<Rightarrow> ('f, 'm) collaborators \<Rightarrow> string \<Rightarrow> (error + 'm cv_result) \<times> 'f event list" where
  "nested_k_fold_with_grid_search keys env classifier =
     (if classifier = SINGLE_LAYER_PERCEPTRON keys \<or> classifier = MULTI_LAYER_PERCEPTRON keys
      then (Inl (NotImplementedError (''Grid search for '' @ classifier @ '' is not supported'')),
            [])
      else
        let (result, events) =
              outer_loop env (outer_folds env)
                (\<lparr>train_scores = [], test_scores = [], best_models = []\<rparr>,
                 [Build_dataset, Init_model, Prepare_stratified_k_fold])
        in (Inr result, events))"

section \<open>Vocabulary for the post-classification properties\<close>

text \<open>
  A pair has a record in a chunk when the chunk has a row for the identifier, with a cell
  for every column of the frame.
\<close>

definition has_record :: "'s chunk \<Rightarrow> string \<Rightarrow> bool" where
  "has_record df ident =
     (case ch_rows df ident of
        None \<Rightarrow> False
      | Some row \<Rightarrow> list_all (\<lambda>column. row column \<noteq> None) (ch_columns df))"

text \<open>
  The record's missing values in the given fields are all the object \<^verbatim>\<open>numpy.nan\<close>: none of
  these cells holds another NaN.
\<close>

definition nan_is_numpy_nan :: "'s chunk \<Rightarrow> string \<Rightarrow> string list \<Rightarrow> bool" where
  "nan_is_numpy_nan df ident fs =
     list_all (\<lambda>column. \<not> (column \<in> set (ch_columns df)
                               \<and> loc_item df ident column = Inr Other_nan)) fs"

text \<open>
  The values of a record in one field, as a set: empty when the frame has no such column or
  the value is missing. The values over several fields are the union.
\<close>

definition record_values :: "'s chunk \<Rightarrow> string \<Rightarrow> string \<Rightarrow> 's set" where
  "record_values df ident column =
     (if column \<in> set (ch_columns df)
      then (case loc_item df ident column of Inr (Values vs) \<Rightarrow> set vs | _ \<Rightarrow> {})
      else {})"

definition field_values :: "'s chunk \<Rightarrow> string \<Rightarrow> string list \<Rightarrow> 's set" where
  "field_values df ident fs = \<Union> (set (map (record_values df ident) fs))"

text \<open>
  What it is for a URL to end in a Wikidata identifier, as the search sees it: the URL ends
  in \<open>g\<close>, or in \<open>g\<close> and one newline, where \<open>g\<close> is a \<^verbatim>\<open>Q\<close> followed by one or more decimal
  digits.
\<close>

definition ends_in_qid :: "(nat \<Rightarrow> bool) \<Rightarrow> str \<Rightarrow> str \<Rightarrow> bool" where
  "ends_in_qid other_decimal u g =
     (\<exists>p ds. g = 81 # ds \<and> ds \<noteq> [] \<and> list_all (is_digit other_decimal) ds
            \<and> (u = p @ g \<or> u = p @ g @ [10]))"

section \<open>Properties of thresholding and deduplication\<close>

lemma drop_duplicates_seen_subset:
  "set (drop_duplicates_seen seen ps) \<subseteq> set ps"
  by (induction ps arbitrary: seen) auto

lemma drop_duplicates_seen_again:
  "set seen' \<subseteq> set seen \<Longrightarrow>
   drop_duplicates_seen seen' (drop_duplicates_seen seen ps) = drop_duplicates_seen seen ps"
proof (induction ps arbitrary: seen seen')
  case Nil
  then show ?case by simp
next
  case (Cons p ps)
  show ?case
  proof (cases "snd p \<in> set seen")
    case True
    then show ?thesis using Cons by simp
  next
    case False
    then have "snd p \<notin> set seen'" using Cons.prems by auto
    moreover have "set (snd p # seen') \<subseteq> set (snd p # seen)" using Cons.prems by auto
    ultimately show ?thesis using False Cons.IH by simp
  qed
qed

lemma at_least_threshold_drop_duplicates:
  "at_least_threshold t (drop_duplicates (at_least_threshold t ps)) =
   drop_duplicates (at_least_threshold t ps)"
proof -
  have "\<forall>p \<in> set (drop_duplicates (at_least_threshold t ps)). snd p \<ge> t"
    using drop_duplicates_seen_subset [of "[]" "at_least_threshold t ps"]
    by (auto simp: drop_duplicates_def at_least_threshold_def)
  then show ?thesis
    unfolding at_least_threshold_def [of t "drop_duplicates _"] by simp
qed

lemma drop_duplicate_pairs_seen_subset:
  "set (drop_duplicate_pairs_seen seen ps) \<subseteq> set ps"
  by (induction ps arbitrary: seen) auto

lemma drop_duplicate_pairs_seen_again:
  "set seen' \<subseteq> set seen \<Longrightarrow>
   drop_duplicate_pairs_seen seen' (drop_duplicate_pairs_seen seen ps) =
   drop_duplicate_pairs_seen seen ps"
proof (induction ps arbitrary: seen seen')
  case Nil
  then show ?case by simp
next
  case (Cons p ps)
  show ?case
  proof (cases "fst p \<in> set seen")
    case True
    then show ?thesis using Cons by simp
  next
    case False
    then have "fst p \<notin> set seen'" using Cons.prems by auto
    moreover have "set (fst p # seen') \<subseteq> set (fst p # seen)" using Cons.prems by auto
    ultimately show ?thesis using False Cons.IH by simp
  qed
qed

lemma threshold_then_drop_duplicate_pairs_idempotent:
  "threshold_then_drop_duplicate_pairs t (threshold_then_drop_duplicate_pairs t ps) =
   threshold_then_drop_duplicate_pairs t ps"
proof -
  let ?once = "drop_duplicate_pairs_seen [] (at_least_threshold t ps)"
  have "\<forall>p \<in> set ?once. snd p \<ge> t"
    using drop_duplicate_pairs_seen_subset [of "[]" "at_least_threshold t ps"]
    by (auto simp: at_least_threshold_def)
  then have "at_least_threshold t ?once = ?once"
    unfolding at_least_threshold_def [of t ?once] by simp
  moreover have "drop_duplicate_pairs_seen [] ?once = ?once"
    by (rule drop_duplicate_pairs_seen_again) simp
  ultimately show ?thesis by (simp add: threshold_then_drop_duplicate_pairs_def)
qed

text \<open>
  The two operations are not the same: of two different pairs with the same score the code
  keeps the first only.
\<close>

lemma execute_yield_drops_equal_scores:
  "execute_yield (1 / 2) [((''Q1'', ''T1''), 1), ((''Q2'', ''T2''), 1)] = [((''Q1'', ''T1''), 1)]"
  "threshold_then_drop_duplicate_pairs (1 / 2) [((''Q1'', ''T1''), 1), ((''Q2'', ''T2''), 1)]
     = [((''Q1'', ''T1''), 1), ((''Q2'', ''T2''), 1)]"
  by (simp_all add: execute_yield_def drop_duplicates_def at_least_threshold_def
        threshold_then_drop_duplicate_pairs_def)

text \<open>
  Claim C6. Keeping the predictions that reach the threshold and then dropping duplicates
  (first occurrence kept) is idempotent: a second application to its own result changes
  nothing, for every prediction series and every threshold. This holds for the operation as
  the code has it, where duplicates are rows with equal scores, and as well for the
  operation that drops rows with equal pairs.
\<close>

theorem execute_yield_idempotent:
  "execute_yield threshold (execute_yield threshold predictions) =
     execute_yield threshold predictions
   \<and> threshold_then_drop_duplicate_pairs threshold
       (threshold_then_drop_duplicate_pairs threshold predictions) =
     threshold_then_drop_duplicate_pairs threshold predictions"
proof -
  have "drop_duplicates (drop_duplicates (at_least_threshold threshold predictions)) =
        drop_duplicates (at_least_threshold threshold predictions)"
    unfolding drop_duplicates_def by (rule drop_duplicates_seen_again) simp
  then have "execute_yield threshold (execute_yield threshold predictions) =
     execute_yield threshold predictions"
    unfolding execute_yield_def by (simp add: at_least_threshold_drop_duplicates)
  then show ?thesis by (simp add: threshold_then_drop_duplicate_pairs_idempotent)
qed

section \<open>Properties of the link check\<close>

lemma assess_identifier_deprecate:
  "q \<in> defaultdict_item (to_deprecate (assess_identifier target qid S out tid)) t \<longleftrightarrow>
     q \<in> defaultdict_item (to_deprecate out) t \<or>
     (q = qid \<and> t = tid \<and> (\<exists>tl. target tid = Some tl \<and> tl \<noteq> [] \<and> shared_links S tl = {}))"
  by (auto simp: assess_identifier_def defaultdict_item_def Let_def split: option.splits)

lemma assess_identifier_add:
  "x \<in> defaultdict_item (to_add (assess_identifier target qid S out tid)) q \<longleftrightarrow>
     x \<in> defaultdict_item (to_add out) q \<or>
     (q = qid \<and> (\<exists>tl. target tid = Some tl \<and> x \<in> extra_links S tl))"
  by (auto simp: assess_identifier_def defaultdict_item_def extra_links_def Let_def split: option.splits)

lemma assess_identifier_add_dom:
  "q \<in> dom (to_add (assess_identifier target qid S out tid)) \<longleftrightarrow>
     q \<in> dom (to_add out) \<or> (q = qid \<and> (\<exists>tl. target tid = Some tl \<and> extra_links S tl \<noteq> {}))"
  by (auto simp: assess_identifier_def defaultdict_item_def extra_links_def Let_def split: option.splits if_splits)

lemma assess_identifiers_deprecate:
  "q \<in> defaultdict_item (to_deprecate (assess_identifiers target qid S out tids)) t \<longleftrightarrow>
     q \<in> defaultdict_item (to_deprecate out) t \<or>
     (q = qid \<and> t \<in> set tids \<and> (\<exists>tl. target t = Some tl \<and> tl \<noteq> [] \<and> shared_links S tl = {}))"
  by (induction tids arbitrary: out) (auto simp: assess_identifier_deprecate)

lemma assess_identifiers_add:
  "x \<in> defaultdict_item (to_add (assess_identifiers target qid S out tids)) q \<longleftrightarrow>
     x \<in> defaultdict_item (to_add out) q \<or>
     (q = qid \<and> (\<exists>t tl. t \<in> set tids \<and> target t = Some tl \<and> x \<in> extra_links S tl))"
  by (induction tids arbitrary: out) (auto simp: assess_identifier_add)

lemma assess_identifiers_add_dom:
  "q \<in> dom (to_add (assess_identifiers target qid S out tids)) \<longleftrightarrow>
     q \<in> dom (to_add out) \<or>
     (q = qid \<and> (\<exists>t tl. t \<in> set tids \<and> target t = Some tl \<and> extra_links S tl \<noteq> {}))"
  by (induction tids arbitrary: out) (auto simp: assess_identifier_add_dom)

lemma assess_qid_deprecate:
  "q \<in> defaultdict_item (to_deprecate (assess_qid target out item)) t \<longleftrightarrow>
     q \<in> defaultdict_item (to_deprecate out) t \<or>
     (q = fst item \<and> (\<exists>S tl. links (snd item) = Some S \<and> S \<noteq> {} \<and> t \<in> set (identifiers (snd item)) \<and>
         target t = Some tl \<and> tl \<noteq> [] \<and> shared_links S tl = {}))"
  by (auto simp: assess_qid_def assess_identifiers_deprecate split: option.splits)

lemma assess_qid_add:
  "x \<in> defaultdict_item (to_add (assess_qid target out item)) q \<longleftrightarrow>
     x \<in> defaultdict_item (to_add out) q \<or>
     (q = fst item \<and> (\<exists>S t tl. links (snd item) = Some S \<and> S \<noteq> {} \<and> t \<in> set (identifiers (snd item)) \<and>
         target t = Some tl \<and> x \<in> extra_links S tl))"
  by (auto simp: assess_qid_def assess_identifiers_add split: option.splits)

lemma assess_qid_add_dom:
  "q \<in> dom (to_add (assess_qid target out item)) \<longleftrightarrow>
     q \<in> dom (to_add out) \<or>
     (q = fst item \<and> (\<exists>S t tl. links (snd item) = Some S \<and> S \<noteq> {} \<and> t \<in> set (identifiers (snd item)) \<and>
         target t = Some tl \<and> extra_links S tl \<noteq> {}))"
  by (auto simp: assess_qid_def assess_identifiers_add_dom split: option.splits)

lemma assess_fold:
  assumes "\<And>out item. A (assess_qid target out item) \<longleftrightarrow> A out \<or> B item"
  shows "A (assess source target out) \<longleftrightarrow> A out \<or> (\<exists>item \<in> set source. B item)"
  by (induction source arbitrary: out) (auto simp: assms)

lemma assess_deprecate:
  "q \<in> defaultdict_item (to_deprecate (assess source target out)) t \<longleftrightarrow>
     q \<in> defaultdict_item (to_deprecate out) t \<or>
     (\<exists>item \<in> set source. q = fst item \<and> (\<exists>S tl. links (snd item) = Some S \<and> S \<noteq> {} \<and>
         t \<in> set (identifiers (snd item)) \<and> target t = Some tl \<and> tl \<noteq> [] \<and> shared_links S tl = {}))"
  by (rule assess_fold) (rule assess_qid_deprecate)

lemma assess_add:
  "x \<in> defaultdict_item (to_add (assess source target out)) q \<longleftrightarrow>
     x \<in> defaultdict_item (to_add out) q \<or>
     (\<exists>item \<in> set source. q = fst item \<and> (\<exists>S t tl. links (snd item) = Some S \<and> S \<noteq> {} \<and>
         t \<in> set (identifiers (snd item)) \<and> target t = Some tl \<and> x \<in> extra_links S tl))"
  by (rule assess_fold) (rule assess_qid_add)

lemma assess_add_dom:
  "q \<in> dom (to_add (assess source target out)) \<longleftrightarrow>
     q \<in> dom (to_add out) \<or>
     (\<exists>item \<in> set source. q = fst item \<and> (\<exists>S t tl. links (snd item) = Some S \<and> S \<noteq> {} \<and>
         t \<in> set (identifiers (snd item)) \<and> target t = Some tl \<and> extra_links S tl \<noteq> {}))"
  by (rule assess_fold) (rule assess_qid_add_dom)

lemma no_shared_then_extra:
  "target_links \<noteq> [] \<Longrightarrow> shared_links S target_links = {} \<Longrightarrow> extra_links S target_links \<noteq> {}"
  by (cases target_links) (auto simp: shared_links_def extra_links_def)

lemma dict_item_unique:
  assumes "distinct (map fst source)" "(qid, d) \<in> set source" "item \<in> set source" "qid = fst item"
  shows "snd item = d"
  using assms by (metis eq_key_imp_eq_value prod.collapse)

text \<open>
  Claim C1 (as amended). Run from empty outputs over a source dictionary, the check treats
  an identifier statement \<open>(qid, target_id)\<close> whose QID has links and whose target identifier
  has a non-empty link list as follows: the QID is recorded for deprecation under the target
  identifier exactly when no link is shared; the links added for the QID are exactly the
  extra links of its statements, so every extra link of this statement is among them, and
  the QID gets an entry in the additions exactly when one of its statements has an extra
  link. The addition is decided whatever the deprecation outcome, but the two outcomes are
  not independent: a statement with no shared link always has an extra link, so a
  deprecation never comes without an addition.
\<close>

theorem assess_decisions:
  assumes "distinct (map fst source)"
    and "(qid, d) \<in> set source" and "links d = Some S" and "S \<noteq> {}"
    and "target_id \<in> set (identifiers d)"
    and "target target_id = Some target_links" and "target_links \<noteq> []"
  shows "(qid \<in> defaultdict_item (to_deprecate (assess source target empty_outputs)) target_id
            \<longleftrightarrow> shared_links S target_links = {})
       \<and> (\<forall>x. x \<in> defaultdict_item (to_add (assess source target empty_outputs)) qid
            \<longleftrightarrow> (\<exists>t tl. t \<in> set (identifiers d) \<and> target t = Some tl \<and> x \<in> extra_links S tl))
       \<and> extra_links S target_links \<subseteq> defaultdict_item (to_add (assess source target empty_outputs)) qid
       \<and> (qid \<in> dom (to_add (assess source target empty_outputs))
            \<longleftrightarrow> (\<exists>t tl. t \<in> set (identifiers d) \<and> target t = Some tl \<and> extra_links S tl \<noteq> {}))
       \<and> (shared_links S target_links = {} \<longrightarrow> extra_links S target_links \<noteq> {})"
proof -
  note uniq = dict_item_unique [OF assms(1,2)]
  have e: "defaultdict_item (to_deprecate empty_outputs) t = {}"
          "defaultdict_item (to_add empty_outputs) q = {}" 
          "dom (to_add empty_outputs) = {}" for t q
    by (simp_all add: empty_outputs_def defaultdict_item_def)
  have 1: "qid \<in> defaultdict_item (to_deprecate (assess source target empty_outputs)) target_id
            \<longleftrightarrow> shared_links S target_links = {}" (is "?L \<longleftrightarrow> ?R")
  proof
    assume ?L
    then obtain item S' tl where i: "item \<in> set source" "qid = fst item"
      "links (snd item) = Some S'" "target target_id = Some tl" "shared_links S' tl = {}"
      unfolding assess_deprecate e by blast
    from uniq [OF i(1,2)] i assms show ?R by simp
  next
    assume ?R
    then show ?L unfolding assess_deprecate e
      using assms by (intro disjI2 bexI [of _ "(qid, d)"]) auto
  qed
  have 2: "x \<in> defaultdict_item (to_add (assess source target empty_outputs)) qid
            \<longleftrightarrow> (\<exists>t tl. t \<in> set (identifiers d) \<and> target t = Some tl \<and> x \<in> extra_links S tl)"
       (is "?L \<longleftrightarrow> ?R") for x
  proof
    assume ?L
    then obtain item S' t tl where i: "item \<in> set source" "qid = fst item"
      "links (snd item) = Some S'" "t \<in> set (identifiers (snd item))" "target t = Some tl"
      "x \<in> extra_links S' tl"
      unfolding assess_add e by blast
    from uniq [OF i(1,2)] i assms show ?R by auto
  next
    assume ?R
    then show ?L unfolding assess_add e
      using assms by (intro disjI2 bexI [of _ "(qid, d)"]) auto
  qed
  have 3: "extra_links S target_links \<subseteq> defaultdict_item (to_add (assess source target empty_outputs)) qid"
    using 2 assms(5,6) by blast
  have 4: "qid \<in> dom (to_add (assess source target empty_outputs))
            \<longleftrightarrow> (\<exists>t tl. t \<in> set (identifiers d) \<and> target t = Some tl \<and> extra_links S tl \<noteq> {})"
       (is "?L \<longleftrightarrow> ?R")
  proof
    assume ?L
    then obtain item S' t tl where i: "item \<in> set source" "qid = fst item"
      "links (snd item) = Some S'" "t \<in> set (identifiers (snd item))" "target t = Some tl"
      "extra_links S' tl \<noteq> {}"
      unfolding assess_add_dom e by blast
    from uniq [OF i(1,2)] i assms show ?R by auto
  next
    assume ?R
    then show ?L unfolding assess_add_dom e
      using assms by (intro disjI2 bexI [of _ "(qid, d)"]) auto
  qed
  from 1 2 3 4 no_shared_then_extra [OF assms(7)] show ?thesis by blast
qed


theorem assess_decisions_witness:
  "''Q2'' \<in> defaultdict_item (to_deprecate (assess
       [(''Q1'', \<lparr>identifiers = [''T1''], links = Some {''a'', ''b''}\<rparr>),
        (''Q2'', \<lparr>identifiers = [''T2''], links = Some {''a''}\<rparr>)]
       [''T1'' \<mapsto> [''b'', ''c''], ''T2'' \<mapsto> [''c'']] empty_outputs)) ''T2''
   \<and> {''c''} \<subseteq> defaultdict_item (to_add (assess
       [(''Q1'', \<lparr>identifiers = [''T1''], links = Some {''a'', ''b''}\<rparr>),
        (''Q2'', \<lparr>identifiers = [''T2''], links = Some {''a''}\<rparr>)]
       [''T1'' \<mapsto> [''b'', ''c''], ''T2'' \<mapsto> [''c'']] empty_outputs)) ''Q2''"
  using assess_decisions [of
       "[(''Q1'', \<lparr>identifiers = [''T1''], links = Some {''a'', ''b''}\<rparr>),
         (''Q2'', \<lparr>identifiers = [''T2''], links = Some {''a''}\<rparr>)]"
       "''Q2''" "\<lparr>identifiers = [''T2''], links = Some {''a''}\<rparr>" "{''a''}" "''T2''"
       "[''T1'' \<mapsto> [''b'', ''c''], ''T2'' \<mapsto> [''c'']]" "[''c'']"]
  by (simp add: shared_links_def extra_links_def)

text \<open>
  Against claim C1 as stated: no identifier statement with a non-empty target link list is
  deprecated without also contributing links to add, so of the four combinations of the two
  decisions the one "deprecation alone" cannot occur.
\<close>

theorem deprecation_alone_counterexample:
  "\<not> (\<exists>target qid S target_id target_links.
         S \<noteq> {} \<and> target target_id = Some target_links \<and> target_links \<noteq> [] \<and>
         qid \<in> defaultdict_item
                 (to_deprecate (assess_identifier target qid S empty_outputs target_id)) target_id \<and>
         qid \<notin> dom (to_add (assess_identifier target qid S empty_outputs target_id)))"
proof
  assume "\<exists>target qid S target_id target_links.
         S \<noteq> {} \<and> target target_id = Some target_links \<and> target_links \<noteq> [] \<and>
         qid \<in> defaultdict_item
                 (to_deprecate (assess_identifier target qid S empty_outputs target_id)) target_id \<and>
         qid \<notin> dom (to_add (assess_identifier target qid S empty_outputs target_id))"
  then obtain target qid S target_id target_links where
    t: "target target_id = Some target_links" "target_links \<noteq> []" and
    d: "qid \<in> defaultdict_item
                 (to_deprecate (assess_identifier target qid S empty_outputs target_id)) target_id" and
    a: "qid \<notin> dom (to_add (assess_identifier target qid S empty_outputs target_id))"
    by blast
  have "defaultdict_item (to_deprecate empty_outputs) target_id = {}"
    by (simp add: empty_outputs_def defaultdict_item_def)
  with d t have "shared_links S target_links = {}"
    by (simp add: assess_identifier_deprecate)
  moreover from a t have "extra_links S target_links = {}"
    by (simp add: assess_identifier_add_dom)
  ultimately show False
    using no_shared_then_extra [OF t(2)] by blast
qed

text \<open>The other three combinations do occur: addition alone, both, and neither.\<close>

lemma assess_example_no_deprecation:
  "assess [(''Q1'', \<lparr>identifiers = [''T1''], links = Some {''a'', ''b''}\<rparr>)]
       [''T1'' \<mapsto> [''b'', ''c'']] empty_outputs
   = \<lparr>to_deprecate = Map.empty, to_add = [''Q1'' \<mapsto> {''c''}]\<rparr>"
  by (simp add: assess_qid_def assess_identifier_def shared_links_def extra_links_def
        empty_outputs_def defaultdict_item_def Let_def) 

lemma assess_example_both:
  "assess [(''Q2'', \<lparr>identifiers = [''T2''], links = Some {''a''}\<rparr>)]
       [''T2'' \<mapsto> [''c'']] empty_outputs
   = \<lparr>to_deprecate = [''T2'' \<mapsto> {''Q2''}], to_add = [''Q2'' \<mapsto> {''c''}]\<rparr>"
  by (simp add: assess_qid_def assess_identifier_def shared_links_def extra_links_def
        empty_outputs_def defaultdict_item_def Let_def)

lemma assess_example_neither:
  "assess [(''Q3'', \<lparr>identifiers = [''T3''], links = Some {''a'', ''b''}\<rparr>)]
       [''T3'' \<mapsto> [''b'']] empty_outputs
   = empty_outputs"
  by (simp add: assess_qid_def assess_identifier_def shared_links_def extra_links_def
        empty_outputs_def defaultdict_item_def Let_def)

lemma assess_identifiers_append:
  "assess_identifiers target qid S out (xs @ ys) =
   assess_identifiers target qid S (assess_identifiers target qid S out xs) ys"
  by (induction xs arbitrary: out) simp_all

text \<open>
  Claim C10. An identifier statement whose target identifier is absent from the target links,
  or present with an empty link list, is skipped: the step returns both outputs as it
  received them, so within the loop over a QID's identifiers the statement could as well
  not be there.
\<close>

theorem assess_identifier_skips:
  assumes "target target_id = None \<or> target target_id = Some []"
  shows "assess_identifier target qid S out target_id = out
       \<and> assess_identifiers target qid S out (before @ target_id # after) =
         assess_identifiers target qid S out (before @ after)"
proof -
  have "assess_identifier target qid S out' target_id = out'" for out'
    using assms by (auto simp: assess_identifier_def)
  then show ?thesis by (simp add: assess_identifiers_append)
qed

theorem assess_identifier_skips_witness:
  "assess_identifier [''T1'' \<mapsto> [''b''], ''T2'' \<mapsto> []] ''Q1'' {''a''} empty_outputs ''T2'' = empty_outputs
   \<and> assess_identifier [''T1'' \<mapsto> [''b''], ''T2'' \<mapsto> []] ''Q1'' {''a''} empty_outputs ''T9'' = empty_outputs"
  using assess_identifier_skips [of "[''T1'' \<mapsto> [''b''], ''T2'' \<mapsto> []]" "''T2''" "''Q1''" "{''a''}" empty_outputs "[]" "[]"]
        assess_identifier_skips [of "[''T1'' \<mapsto> [''b''], ''T2'' \<mapsto> []]" "''T9''" "''Q1''" "{''a''}" empty_outputs "[]" "[]"]
  by simp

section \<open>Properties of the missing feature columns\<close>

lemma digit_char_inj: "a < 10 \<Longrightarrow> b < 10 \<Longrightarrow> digit_char a = digit_char b \<Longrightarrow> a = b"
proof -
  assume a: "a < 10" and b: "b < 10" and e: "digit_char a = digit_char b"
  from e have "of_char (char_of (48 + a) :: char) = (of_char (char_of (48 + b) :: char) :: nat)"
    by (simp add: digit_char_def)
  then have "(48 + a) mod 256 = (48 + b) mod 256" by (simp add: of_char_of)
  with a b show "a = b" by simp
qed

lemma str_nat_not_Nil: "str_nat n \<noteq> []"
  by (subst str_nat.simps) simp

lemma str_nat_inj: "str_nat n = str_nat m \<Longrightarrow> n = m"
proof (induction n arbitrary: m rule: str_nat.induct)
  case (1 n)
  show ?case
  proof (cases "n < 10")
    case n: True
    show ?thesis
    proof (cases "m < 10")
      case True
      with n "1.prems" show ?thesis
        by (simp add: str_nat.simps [of n] str_nat.simps [of m] digit_char_inj)
    next
      case False
      with n "1.prems" str_nat_not_Nil [of "m div 10"] show ?thesis
        by (simp add: str_nat.simps [of n] str_nat.simps [of m] Cons_eq_append_conv)
    qed
  next
    case n: False
    show ?thesis
    proof (cases "m < 10")
      case True
      with n "1.prems" str_nat_not_Nil [of "n div 10"] show ?thesis
        by (simp add: str_nat.simps [of n] str_nat.simps [of m] append_eq_Cons_conv)
    next
      case False
      with n "1.prems" have "str_nat (n div 10) = str_nat (m div 10)"
        and d: "digit_char (n mod 10) = digit_char (m mod 10)"
        by (simp_all add: str_nat.simps [of n] str_nat.simps [of m])
      with "1.IH" n have "n div 10 = m div 10" by simp
      moreover from d have "n mod 10 = m mod 10" by (intro digit_char_inj) simp_all
      ultimately show ?thesis by (metis div_mult_mod_eq)
    qed
  qed
qed

lemma fv_index_setitem [simp]: "fv_index (setitem df l vs) = fv_index df"
  by (simp add: setitem_def)

lemma fv_index_add_missing_columns [simp]:
  "fv_index (add_missing_columns M fv is) = fv_index fv"
  by (induction "is" arbitrary: fv) (simp_all add: add_missing_column_def)

lemma add_missing_columns_fresh:
  assumes "\<forall>i \<in> set is. ''missing_'' @ str_nat i \<notin> fst ` set (fv_columns fv)"
    and "distinct is"
  shows "fv_columns (add_missing_columns M fv is) =
         fv_columns fv @
           map (\<lambda>i. (''missing_'' @ str_nat i, replicate (length (fv_index fv)) M)) is"
  using assms
proof (induction "is" arbitrary: fv)
  case Nil
  then show ?case by simp
next
  case (Cons i rest)
  let ?fv = "add_missing_column M fv i"
  have c: "fv_columns ?fv = fv_columns fv @ [(''missing_'' @ str_nat i, replicate (length (fv_index fv)) M)]"
    using Cons.prems(1) by (simp add: add_missing_column_def setitem_def)
  have "\<forall>j \<in> set rest. ''missing_'' @ str_nat j \<notin> fst ` set (fv_columns ?fv)"
    using Cons.prems by (auto simp: c dest: str_nat_inj)
  moreover have "distinct rest" using Cons.prems by simp
  moreover have "fv_index ?fv = fv_index fv" by (simp add: add_missing_column_def)
  ultimately show ?case using Cons.IH [of ?fv] by (simp add: c)
qed

lemma range_py_diff: "w \<le> e \<Longrightarrow> range_py (int e - int w) = [0 ..< e - w]"
  by (auto simp: range_py_def nat_diff_distrib')

text \<open>
  What \<^verbatim>\<open>_add_missing_feature_columns\<close> achieves when none of the labels it is going to use
  is taken: for a supported classifier expecting \<open>e\<close> columns and a matrix with \<open>w \<le> e\<close>
  columns, the result has exactly \<open>e\<close> columns, the first \<open>w\<close> are the old ones, and the
  others hold the missing-value constant in every row.
\<close>

lemma add_missing_feature_columns_fresh:
  assumes "expected_features_of CLASSIFIERS classifier = Inr e"
    and "length (fv_columns fv) = w" and "w \<le> e"
    and "\<forall>i < e - w. ''missing_'' @ str_nat i \<notin> fst ` set (fv_columns fv)"
  shows "\<exists>fv'. add_missing_feature_columns CLASSIFIERS M classifier fv = Inr fv'
           \<and> length (fv_columns fv') = e
           \<and> take w (fv_columns fv') = fv_columns fv
           \<and> (\<forall>c \<in> set (drop w (fv_columns fv')). snd c = replicate (length (fv_index fv)) M)
           \<and> fv_index fv' = fv_index fv"
proof (cases "e = w")
  case True
  with assms show ?thesis by (simp add: add_missing_feature_columns_def)
next
  case False
  let ?fv = "add_missing_columns M fv [0 ..< e - w]"
  have r: "add_missing_feature_columns CLASSIFIERS M classifier fv = Inr ?fv"
    using assms False by (simp add: add_missing_feature_columns_def range_py_diff)
  have c: "fv_columns ?fv = fv_columns fv @
      map (\<lambda>i. (''missing_'' @ str_nat i, replicate (length (fv_index fv)) M)) [0 ..< e - w]"
    using assms(4) by (intro add_missing_columns_fresh) simp_all
  show ?thesis using assms(2,3) by (auto simp: r c)
qed

lemma str_nat_0: "str_nat 0 = ''0''"
  by code_simp

text \<open>
  Claim C2 fails on a matrix that has a column labelled \<^verbatim>\<open>missing_0\<close> already (as a matrix
  has that went through this function before): with one column and a model expecting two,
  the assignment overwrites that column instead of appending one. The result still has one
  column, and its content is lost.
\<close>

theorem add_missing_feature_columns_collision:
  "add_missing_feature_columns CLASSIFIERS M (NaiveBayesClassifier 2)
     \<lparr>fv_index = [p], fv_columns = [(''missing_0'', [x])]\<rparr>
   = Inr \<lparr>fv_index = [p], fv_columns = [(''missing_0'', [M])]\<rparr>"
  by (simp add: add_missing_feature_columns_def expected_features_of_def range_py_def
        add_missing_column_def setitem_def str_nat_0)

text \<open>
  Claim C3 (as amended). When the matrix has more columns than the supported classifier
  expects, \<^verbatim>\<open>_add_missing_feature_columns\<close> corrects nothing and raises nothing: the range of
  a negative number is empty, and the matrix comes back as it was.
\<close>

theorem add_missing_feature_columns_wider:
  assumes "expected_features_of CLASSIFIERS classifier = Inr e"
    and "e < length (fv_columns fv)"
  shows "add_missing_feature_columns CLASSIFIERS M classifier fv = Inr fv"
  using assms by (simp add: add_missing_feature_columns_def range_py_def)

theorem add_missing_feature_columns_wider_witness:
  "add_missing_feature_columns [''naive_bayes'', ''svm''] (0::real) (SVMClassifier 2)
     \<lparr>fv_index = [(''Q1'', ''T1'')], fv_columns = [(''a'', [1]), (''b'', [1]), (''c'', [0])]\<rparr>
   = Inr \<lparr>fv_index = [(''Q1'', ''T1'')], fv_columns = [(''a'', [1]), (''b'', [1]), (''c'', [0])]\<rparr>"
  using add_missing_feature_columns_wider [of "[''naive_bayes'', ''svm'']" "SVMClassifier 2" 2
     "\<lparr>fv_index = [(''Q1'', ''T1'')], fv_columns = [(''a'', [1]), (''b'', [1]), (''c'', [0])]\<rparr>"
     "0::real"]
  by (simp add: expected_features_of_def)

text \<open>
  Against claim C3 as stated: a matrix with two columns and a naive Bayes model expecting
  one. No exception is raised; the function returns, and the matrix is unchanged.
\<close>

theorem add_missing_feature_columns_wider_counterexample:
  "add_missing_feature_columns [''naive_bayes'', ''svm''] (0::real) (NaiveBayesClassifier 1)
     \<lparr>fv_index = [(''Q1'', ''T1'')], fv_columns = [(''name'', [1]), (''url'', [1])]\<rparr>
   = Inr \<lparr>fv_index = [(''Q1'', ''T1'')], fv_columns = [(''name'', [1]), (''url'', [1])]\<rparr>"
  by (simp add: add_missing_feature_columns_def expected_features_of_def range_py_def)

text \<open>
  Claim C8 fails on an object of an unsupported class: an instance has no \<^verbatim>\<open>__name__\<close>
  attribute, so building the message raises \<^verbatim>\<open>AttributeError\<close>, and the \<^verbatim>\<open>ValueError\<close> that
  names the classifier and the supported ones is never raised.
\<close>

theorem add_missing_feature_columns_unsupported_instance:
  "add_missing_feature_columns CLASSIFIERS M (OtherObject None) fv = Inl AttributeError"
  by (simp add: add_missing_feature_columns_def expected_features_of_def)

text \<open>
  Only an unsupported object that has a \<^verbatim>\<open>__name__\<close> (a class, say) gets the intended error.
\<close>

lemma add_missing_feature_columns_unsupported_named:
  "add_missing_feature_columns CLASSIFIERS M (OtherObject (Some name)) fv =
     Inl (ValueError (''Unsupported classifier: '' @ name @ ''. It should be one of ''
            @ repr_set CLASSIFIERS))"
  by (simp add: add_missing_feature_columns_def expected_features_of_def)

lemma add_missing_feature_columns_unsupported_example:
  "add_missing_feature_columns [''naive_bayes'', ''svm''] M (OtherObject (Some ''KMeans'')) fv =
     Inl (ValueError (''Unsupported classifier: KMeans. It should be one of {''
            @ [CHR 0x27] @ ''naive_bayes'' @ [CHR 0x27] @ '', ''
            @ [CHR 0x27] @ ''svm'' @ [CHR 0x27] @ ''}''))"
  by (simp add: add_missing_feature_columns_def expected_features_of_def repr_set_def)

section \<open>Properties of the field veto\<close>

lemma update_values_eq:
  assumes "has_record df ident"
    and "\<not> (column \<in> set (ch_columns df) \<and> loc_item df ident column = Inr Other_nan)"
  shows "update_values df ident column collected = Inr (collected \<union> record_values df ident column)"
  using assms
  by (auto simp: has_record_def update_values_def record_values_def loc_item_def list_all_iff
           split: option.splits cell.splits sum.splits)

lemma collect_values_eq:
  assumes "has_record wikidata qid" and "has_record target tid"
  shows "nan_is_numpy_nan wikidata qid fs \<Longrightarrow> nan_is_numpy_nan target tid fs \<Longrightarrow>
         collect_values wikidata target qid tid fs (wd_values, target_values) =
         Inr (wd_values \<union> field_values wikidata qid fs, target_values \<union> field_values target tid fs)"
proof (induction fs arbitrary: wd_values target_values)
  case Nil
  then show ?case by (simp add: field_values_def)
next
  case (Cons column rest)
  from Cons.prems have
    w: "\<not> (column \<in> set (ch_columns wikidata) \<and> loc_item wikidata qid column = Inr Other_nan)"
    and t: "\<not> (column \<in> set (ch_columns target) \<and> loc_item target tid column = Inr Other_nan)"
    and r: "nan_is_numpy_nan wikidata qid rest" "nan_is_numpy_nan target tid rest"
    by (simp_all add: nan_is_numpy_nan_def)
  show ?case
    by (simp add: update_values_eq [OF assms(1) w] update_values_eq [OF assms(2) t] Cons.IH [OF r])
       (auto simp: field_values_def)
qed

text \<open>
  What \<^verbatim>\<open>_zero_when_not_exact_match\<close> and \<^verbatim>\<open>_post_classification_blocking\<close> achieve for pairs
  that have their records in the two chunks, when the missing values of these records in
  the given fields are all \<^verbatim>\<open>numpy.nan\<close> itself: the function returns 0 when the values of
  the Wikidata record and those of the target record over the fields are disjoint, whatever
  the raw score, and the raw score when they share a value; with a non-empty list of
  fields the blocking step applies this to every prediction; and with no field it returns
  the predictions as they are.
\<close>

lemma zero_when_not_exact_match_eq:
  assumes "has_record wikidata (fst (fst p))" and "has_record target (snd (fst p))"
    and "nan_is_numpy_nan wikidata (fst (fst p)) fs"
    and "nan_is_numpy_nan target (snd (fst p)) fs"
  shows "zero_when_not_exact_match p (Fields fs) wikidata target =
         Inr (if field_values wikidata (fst (fst p)) fs \<inter> field_values target (snd (fst p)) fs = {}
              then 0 else snd p)"
  by (simp add: zero_when_not_exact_match_def collect_values_eq [OF assms])

lemma apply_rows_eq:
  "\<forall>p \<in> set ps. f p = Inr (g p) \<Longrightarrow> apply_rows f ps = Inr (map (\<lambda>p. (fst p, g p)) ps)"
  by (induction ps) simp_all

lemma post_classification_blocking_eq:
  assumes "\<forall>p \<in> set predictions.
             has_record wikidata (fst (fst p)) \<and> has_record target (snd (fst p))
             \<and> nan_is_numpy_nan wikidata (fst (fst p)) fs
             \<and> nan_is_numpy_nan target (snd (fst p)) fs"
    and "fs \<noteq> []"
  shows "post_classification_blocking predictions wikidata target fs =
           Inr (map (\<lambda>p. (fst p,
                           if field_values wikidata (fst (fst p)) fs
                                \<inter> field_values target (snd (fst p)) fs = {}
                           then 0 else snd p)) predictions)"
proof -
  have "\<forall>p \<in> set predictions.
            zero_when_not_exact_match p (Fields fs) wikidata target =
              Inr (if field_values wikidata (fst (fst p)) fs
                        \<inter> field_values target (snd (fst p)) fs = {}
                   then 0 else snd p)"
    using assms(1) by (simp add: zero_when_not_exact_match_eq)
  from apply_rows_eq [OF this] assms(2) show ?thesis
    by (simp add: post_classification_blocking_def)
qed

lemma post_classification_blocking_no_fields:
  "post_classification_blocking predictions wikidata target [] = Inr predictions"
  by (simp add: post_classification_blocking_def)

lemma post_classification_blocking_example:
  "post_classification_blocking
      [((''Q1'', ''T1''), 9 / 10), ((''Q1'', ''T2''), 4 / 5)]
      \<lparr>ch_columns = [''name''],
       ch_rows = [''Q1'' \<mapsto> [''name'' \<mapsto> Values [''ann'', ''anna'']]]\<rparr>
      \<lparr>ch_columns = [''name''],
       ch_rows = [''T1'' \<mapsto> [''name'' \<mapsto> Values [''bob'']],
                  ''T2'' \<mapsto> [''name'' \<mapsto> Values [''anna'']]]\<rparr>
      [''name'']
   = Inr [((''Q1'', ''T1''), 0), ((''Q1'', ''T2''), 4 / 5)]"
  by (simp add: post_classification_blocking_def zero_when_not_exact_match_def
        update_values_def loc_item_def)

text \<open>
  With the object \<^verbatim>\<open>numpy.nan\<close> in every given field of both records, or no such column,
  nothing is collected on either side, and the score becomes 0.
\<close>

lemma zero_when_both_numpy_nan:
  assumes "has_record wikidata qid" and "has_record target tid"
    and "\<forall>column \<in> set fs.
           (column \<notin> set (ch_columns wikidata) \<or> loc_item wikidata qid column = Inr Nan) \<and>
           (column \<notin> set (ch_columns target) \<or> loc_item target tid column = Inr Nan)"
  shows "zero_when_not_exact_match ((qid, tid), raw) (Fields fs) wikidata target = Inr 0"
proof -
  have "field_values wikidata qid fs = {}"
    using assms(3) by (auto simp: field_values_def record_values_def)
  moreover have "nan_is_numpy_nan wikidata qid fs" "nan_is_numpy_nan target tid fs"
    using assms(3) by (auto simp: nan_is_numpy_nan_def list_all_iff)
  ultimately show ?thesis
    using zero_when_not_exact_match_eq [of wikidata "((qid, tid), raw)" target fs] assms(1,2)
    by simp
qed

text \<open>
  A NaN that is not \<^verbatim>\<open>numpy.nan\<close> itself, in a field of either record, ends the function
  with \<^verbatim>\<open>TypeError\<close> instead: on the Wikidata side at once, on the target side unless the
  Wikidata side raised first.
\<close>

lemma update_values_other_nan:
  "column \<in> set (ch_columns df) \<Longrightarrow> loc_item df ident column = Inr Other_nan \<Longrightarrow>
   update_values df ident column collected = Inl TypeError"
  by (simp add: update_values_def)

text \<open>
  Claim C4 fails on a chunk that was read back from the cache. The Wikidata record has no
  URL, and its cell holds a NaN that is not the object \<^verbatim>\<open>numpy.nan\<close>; the target record has
  one URL. The two value sets are disjoint, so the score should become 0; the function
  raises \<^verbatim>\<open>TypeError\<close> instead, and with it the blocking step.
\<close>

theorem post_classification_blocking_other_nan:
  "post_classification_blocking [((''Q1'', ''T1''), raw)]
      \<lparr>ch_columns = [''url''], ch_rows = [''Q1'' \<mapsto> [''url'' \<mapsto> Other_nan]]\<rparr>
      \<lparr>ch_columns = [''url''], ch_rows = [''T1'' \<mapsto> [''url'' \<mapsto> Values [u]]]\<rparr>
      [''url'']
   = Inl TypeError
   \<and> zero_when_not_exact_match ((''Q1'', ''T1''), raw) (Fields [''url''])
      \<lparr>ch_columns = [''url''], ch_rows = [''Q1'' \<mapsto> [''url'' \<mapsto> Other_nan]]\<rparr>
      \<lparr>ch_columns = [''url''], ch_rows = [''T1'' \<mapsto> [''url'' \<mapsto> Values [u]]]\<rparr>
   = Inl TypeError"
  by (simp add: post_classification_blocking_def zero_when_not_exact_match_def
        update_values_def loc_item_def)

text \<open>
  Claim C9 fails on chunks that were read back from the cache, for the same reason. The URL
  is missing in both records, each cell holding a NaN that is not the object \<^verbatim>\<open>numpy.nan\<close>.
  Nothing is there to collect, so the score should become 0; the function raises
  \<^verbatim>\<open>TypeError\<close> instead.
\<close>

theorem zero_when_both_missing_other_nan:
  "zero_when_not_exact_match ((''Q1'', ''T1''), raw) (Fields [''url''])
      \<lparr>ch_columns = [''name'', ''url''],
       ch_rows = [''Q1'' \<mapsto> [''name'' \<mapsto> Values [n], ''url'' \<mapsto> Other_nan]]\<rparr>
      \<lparr>ch_columns = [''name'', ''url''],
       ch_rows = [''T1'' \<mapsto> [''name'' \<mapsto> Values [n], ''url'' \<mapsto> Other_nan]]\<rparr>
   = Inl TypeError"
  by (simp add: zero_when_not_exact_match_def update_values_def loc_item_def)

text \<open>With \<^verbatim>\<open>numpy.nan\<close> itself, or without the column, the score does become 0.\<close>

lemma zero_when_both_numpy_nan_example:
  "zero_when_not_exact_match ((''Q1'', ''T1''), raw) (Fields [''url''])
      \<lparr>ch_columns = [''name'', ''url''],
       ch_rows = [''Q1'' \<mapsto> [''name'' \<mapsto> Values [n], ''url'' \<mapsto> Nan]]\<rparr>
      \<lparr>ch_columns = [''name''], ch_rows = [''T1'' \<mapsto> [''name'' \<mapsto> Values [n]]]\<rparr>
   = Inr 0"
  by (simp add: zero_when_not_exact_match_def update_values_def loc_item_def)

section \<open>Properties of the Wikidata link rule\<close>

lemma is_digit_Q [simp]: "\<not> is_digit other_decimal 81"
  by (simp add: is_digit_def)

lemma is_digit_newline [simp]: "\<not> is_digit other_decimal 10"
  by (simp add: is_digit_def)

lemma match_qid_at_end:
  assumes "ds \<noteq> []" and "list_all (is_digit other_decimal) ds" and "rest = [] \<or> rest = [10]"
  shows "match_qid other_decimal (81 # ds @ rest) = Some (81 # ds)"
proof -
  have a: "\<And>d. d \<in> set ds \<Longrightarrow> is_digit other_decimal d"
    using assms(2) by (simp add: list_all_iff)
  have r: "takeWhile (is_digit other_decimal) rest = []"
    "dropWhile (is_digit other_decimal) rest = rest"
    using assms(3) by auto
  have t: "takeWhile (is_digit other_decimal) (ds @ rest) = ds"
    using a by (simp add: takeWhile_append2 r)
  have d: "dropWhile (is_digit other_decimal) (ds @ rest) = rest"
    using a by (simp add: dropWhile_append2 r)
  show ?thesis unfolding match_qid_def list.case t d using assms(1,3) by simp
qed

lemma dropWhile_before_Q:
  assumes "ds \<noteq> []"
  shows "dropWhile (is_digit other_decimal) (p @ 81 # ds @ rest) \<noteq> []
       \<and> dropWhile (is_digit other_decimal) (p @ 81 # ds @ rest) \<noteq> [10]"
proof (induction p)
  case Nil
  then show ?case using assms by simp
next
  case (Cons c p)
  then show ?case using assms by (cases ds) auto
qed

lemma match_qid_before_last_Q:
  assumes "ds \<noteq> []"
  shows "match_qid other_decimal (c # p @ 81 # ds @ rest) = None"
  using dropWhile_before_Q [OF assms, of other_decimal p rest] by (simp add: match_qid_def)

lemma search_qid_at_end:
  assumes "ds \<noteq> []" and "list_all (is_digit other_decimal) ds" and "rest = [] \<or> rest = [10]"
  shows "search_qid other_decimal (p @ 81 # ds @ rest) = Some (81 # ds)"
proof (induction p)
  case Nil
  then show ?case using match_qid_at_end [OF assms] by simp
next
  case (Cons c p)
  then show ?case using match_qid_before_last_Q [OF assms(1), of other_decimal c p rest] by simp
qed

lemma match_qid_Some:
  assumes "match_qid other_decimal s = Some g"
  shows "ends_in_qid other_decimal s g"
proof -
  from assms obtain c cs where s: "s = c # cs" by (cases s) (auto simp: match_qid_def)
  let ?t = "takeWhile (is_digit other_decimal) cs"
  let ?d = "dropWhile (is_digit other_decimal) cs"
  from assms s have c: "c = 81" and t: "?t \<noteq> []" and d: "?d = [] \<or> ?d = [10]"
    and g: "g = 81 # ?t"
    by (auto simp: match_qid_def split: if_splits)
  have all: "list_all (is_digit other_decimal) ?t"
    by (simp add: list_all_iff) (meson set_takeWhileD)
  have "cs = ?t @ ?d" by simp
  with d have "s = [] @ g \<or> s = [] @ g @ [10]"
    unfolding s c g by (metis append_Cons append_Nil append_Nil2)
  with g t all show ?thesis unfolding ends_in_qid_def by blast
qed

lemma ends_in_qid_Cons: "ends_in_qid other_decimal u g \<Longrightarrow> ends_in_qid other_decimal (c # u) g"
  unfolding ends_in_qid_def by (metis append_Cons)

lemma search_qid_Some:
  "search_qid other_decimal u = Some g \<Longrightarrow> ends_in_qid other_decimal u g"
proof (induction u)
  case Nil
  then show ?case by simp
next
  case (Cons c u)
  show ?case
  proof (cases "match_qid other_decimal (c # u)")
    case None
    with Cons show ?thesis by (simp add: ends_in_qid_Cons)
  next
    case (Some g')
    with Cons.prems have "g' = g" by simp
    with Some show ?thesis by (simp add: match_qid_Some)
  qed
qed

text \<open>The search finds an identifier exactly when the URL ends in one, and then that one.\<close>

lemma search_qid_iff:
  "search_qid other_decimal u = Some g \<longleftrightarrow> ends_in_qid other_decimal u g"
proof
  assume "search_qid other_decimal u = Some g"
  then show "ends_in_qid other_decimal u g" by (rule search_qid_Some)
next
  assume "ends_in_qid other_decimal u g"
  then obtain p ds where g: "g = 81 # ds" and ds: "ds \<noteq> []" "list_all (is_digit other_decimal) ds"
    and u: "u = p @ g \<or> u = p @ g @ [10]"
    unfolding ends_in_qid_def by blast
  from u have "u = p @ 81 # ds @ [] \<or> u = p @ 81 # ds @ [10]" by (simp add: g)
  then show "search_qid other_decimal u = Some g"
    using search_qid_at_end [OF ds, of "[]" p] search_qid_at_end [OF ds, of "[10]" p]
    by (auto simp: g)
qed

lemma search_qid_None_iff:
  "search_qid other_decimal u = None \<longleftrightarrow> (\<nexists>g. ends_in_qid other_decimal u g)"
  using search_qid_iff [of other_decimal u] by (metis not_Some_eq)

text \<open>A URL that ends in \<^verbatim>\<open>Q\<close> and ASCII digits ends in that identifier, whatever the other digits are.\<close>

lemma ends_in_qid_ascii:
  assumes "ds \<noteq> []" and "list_all (\<lambda>c. 48 \<le> c \<and> c \<le> 57) ds"
  shows "ends_in_qid other_decimal (p @ 81 # ds) (81 # ds)"
proof -
  have "list_all (is_digit other_decimal) ds"
    using assms(2) by (simp add: list_all_iff is_digit_def)
  with assms(1) show ?thesis unfolding ends_in_qid_def by blast
qed

lemma search_qid_no_Q: "81 \<notin> set u \<Longrightarrow> search_qid other_decimal u = None"
  by (induction u) (auto simp: match_qid_def)

lemma wikidata_not_in_empty [simp]: "\<not> is_substring (str_of ''wikidata'') []"
  by (simp add: str_of_def)

lemma wikidata_link_loop_first:
  assumes "\<forall>v \<in> set before. \<not> (is_substring (str_of ''wikidata'') v
                                \<and> search_qid other_decimal v \<noteq> None)"
    and "is_substring (str_of ''wikidata'') u" and "search_qid other_decimal u = Some g"
  shows "wikidata_link_loop other_decimal qid (before @ u # after) =
           Some (if str_of qid = g then 1 else 0)"
  using assms
proof (induction before)
  case Nil
  then show ?case by (cases u) auto
next
  case (Cons v before)
  then show ?case by (auto split: option.splits)
qed

text \<open>
  Claim C5 (as amended). When the target record of the pair has URLs, the first of them, in
  the record's order, that contains \<^verbatim>\<open>wikidata\<close> and ends in a Wikidata identifier decides:
  the returned score is 1 if that identifier is the QID of the pair, and 0 otherwise,
  whatever the raw score was. The URLs after it play no part. To end in an identifier is to
  end in a \<^verbatim>\<open>Q\<close> followed by one or more decimal digits, possibly with one newline after
  them; the digits are those of any script.
\<close>

theorem one_when_first_wikidata_link:
  assumes "ch_rows target tid = Some row"
    and "row URL = Some (Values (before @ u # after))"
    and "\<forall>v \<in> set before. \<not> (is_substring (str_of ''wikidata'') v
                                \<and> (\<exists>g'. ends_in_qid other_decimal v g'))"
    and "is_substring (str_of ''wikidata'') u"
    and "ends_in_qid other_decimal u g"
  shows "one_when_wikidata_link_correct other_decimal ((qid, tid), raw) target =
           Inr (if str_of qid = g then 1 else 0)"
proof -
  have b: "\<forall>v \<in> set before. \<not> (is_substring (str_of ''wikidata'') v
                                \<and> search_qid other_decimal v \<noteq> None)"
    using assms(3) by (metis not_Some_eq search_qid_iff)
  have "search_qid other_decimal u = Some g"
    using assms(5) by (simp add: search_qid_iff)
  from wikidata_link_loop_first [OF b assms(4) this]
  show ?thesis
    using assms(1,2) by (simp add: one_when_wikidata_link_correct_def loc_item_def)
qed

lemma example_urls:
  "\<not> is_substring (str_of ''wikidata'') (str_of ''https://example.org/Q42'')"
  "81 \<notin> set (str_of ''https://www.wikidata.org/wiki/Property:P18'')"
  "is_substring (str_of ''wikidata'') (str_of ''https://www.wikidata.org/wiki/Q42'')"
  "is_substring (str_of ''wikidata'') (str_of ''https://www.wikidata.org/wiki/Q7'')"
  "str_of ''https://www.wikidata.org/wiki/Q42'' = str_of ''https://www.wikidata.org/wiki/'' @ 81 # [52, 50]"
  "str_of ''https://www.wikidata.org/wiki/Q7'' = str_of ''https://www.wikidata.org/wiki/'' @ 81 # [55]"
  "str_of ''Q42'' = 81 # [52, 50]"
  "str_of ''Q7'' = 81 # [55]"
  by code_simp+

theorem one_when_first_wikidata_link_witness:
  "\<forall>other_decimal.
     one_when_wikidata_link_correct other_decimal ((''Q42'', ''T1''), 3 / 10)
       \<lparr>ch_columns = [''url''],
        ch_rows = [''T1'' \<mapsto> [''url'' \<mapsto> Values
          [str_of ''https://example.org/Q42'',
           str_of ''https://www.wikidata.org/wiki/Property:P18'',
           str_of ''https://www.wikidata.org/wiki/Q42'',
           str_of ''https://www.wikidata.org/wiki/Q7'']]]\<rparr> = Inr 1
   \<and> one_when_wikidata_link_correct other_decimal ((''Q7'', ''T1''), 9 / 10)
       \<lparr>ch_columns = [''url''],
        ch_rows = [''T1'' \<mapsto> [''url'' \<mapsto> Values
          [str_of ''https://example.org/Q42'',
           str_of ''https://www.wikidata.org/wiki/Property:P18'',
           str_of ''https://www.wikidata.org/wiki/Q42'',
           str_of ''https://www.wikidata.org/wiki/Q7'']]]\<rparr> = Inr 0"
proof
  fix other_decimal
  let ?before = "[str_of ''https://example.org/Q42'',
                  str_of ''https://www.wikidata.org/wiki/Property:P18'']"
  let ?u = "str_of ''https://www.wikidata.org/wiki/Q42''"
  let ?after = "[str_of ''https://www.wikidata.org/wiki/Q7'']"
  let ?row = "[''url'' \<mapsto> Values (?before @ ?u # ?after)]"
  let ?target = "\<lparr>ch_columns = [''url''], ch_rows = [''T1'' \<mapsto> ?row]\<rparr>"
  have 1: "ch_rows ?target ''T1'' = Some ?row" by simp
  have 2: "?row URL = Some (Values (?before @ ?u # ?after))" by (simp add: URL_def)
  have 3: "\<forall>v \<in> set ?before. \<not> (is_substring (str_of ''wikidata'') v
                                  \<and> (\<exists>g'. ends_in_qid other_decimal v g'))"
    using example_urls(1) search_qid_no_Q [OF example_urls(2), of other_decimal]
    by (simp add: search_qid_iff [symmetric])
  have 5: "ends_in_qid other_decimal ?u (str_of ''Q42'')"
    unfolding example_urls(5,7) by (rule ends_in_qid_ascii) simp_all
  note t = one_when_first_wikidata_link [OF 1 2 3 example_urls(3) 5]
  have ne: "str_of ''Q7'' \<noteq> str_of ''Q42''" by (simp add: example_urls(7,8))
  from t [of "''Q42''" "3 / 10"] t [of "''Q7''" "9 / 10"] ne
  show "one_when_wikidata_link_correct other_decimal ((''Q42'', ''T1''), 3 / 10)
       \<lparr>ch_columns = [''url''],
        ch_rows = [''T1'' \<mapsto> [''url'' \<mapsto> Values
          [str_of ''https://example.org/Q42'',
           str_of ''https://www.wikidata.org/wiki/Property:P18'',
           str_of ''https://www.wikidata.org/wiki/Q42'',
           str_of ''https://www.wikidata.org/wiki/Q7'']]]\<rparr> = Inr 1
   \<and> one_when_wikidata_link_correct other_decimal ((''Q7'', ''T1''), 9 / 10)
       \<lparr>ch_columns = [''url''],
        ch_rows = [''T1'' \<mapsto> [''url'' \<mapsto> Values
          [str_of ''https://example.org/Q42'',
           str_of ''https://www.wikidata.org/wiki/Property:P18'',
           str_of ''https://www.wikidata.org/wiki/Q42'',
           str_of ''https://www.wikidata.org/wiki/Q7'']]]\<rparr> = Inr 0"
    by simp
qed

text \<open>
  Against claim C5 as stated: the target record has two Wikidata URLs, the second one ends
  in \<^verbatim>\<open>Q42\<close>, the QID of the pair, and the score is 0, not 1, because the first URL, which
  ends in \<^verbatim>\<open>Q7\<close>, decides.
\<close>

theorem second_wikidata_link_counterexample:
  "\<forall>other_decimal.
     is_substring (str_of ''wikidata'') (str_of ''https://www.wikidata.org/wiki/Q42'')
   \<and> ends_in_qid other_decimal (str_of ''https://www.wikidata.org/wiki/Q42'') (str_of ''Q42'')
   \<and> one_when_wikidata_link_correct other_decimal ((''Q42'', ''T1''), 3 / 10)
       \<lparr>ch_columns = [''url''],
        ch_rows = [''T1'' \<mapsto> [''url'' \<mapsto> Values
          [str_of ''https://www.wikidata.org/wiki/Q7'',
           str_of ''https://www.wikidata.org/wiki/Q42'']]]\<rparr> = Inr 0"
proof
  fix other_decimal
  have e42: "ends_in_qid other_decimal (str_of ''https://www.wikidata.org/wiki/Q42'') (str_of ''Q42'')"
    unfolding example_urls(5,7) by (rule ends_in_qid_ascii) simp_all
  have "ends_in_qid other_decimal (str_of ''https://www.wikidata.org/wiki/Q7'') (str_of ''Q7'')"
    unfolding example_urls(6,8) by (rule ends_in_qid_ascii) simp_all
  then have "search_qid other_decimal (str_of ''https://www.wikidata.org/wiki/Q7'') = Some (str_of ''Q7'')"
    by (simp add: search_qid_iff)
  from wikidata_link_loop_first [of "[]", OF _ example_urls(4) this]
  have "wikidata_link_loop other_decimal ''Q42''
          [str_of ''https://www.wikidata.org/wiki/Q7'', str_of ''https://www.wikidata.org/wiki/Q42'']
        = Some 0"
    by (simp add: example_urls(7,8) del: wikidata_link_loop.simps)
  then have "one_when_wikidata_link_correct other_decimal ((''Q42'', ''T1''), 3 / 10)
       \<lparr>ch_columns = [''url''],
        ch_rows = [''T1'' \<mapsto> [''url'' \<mapsto> Values
          [str_of ''https://www.wikidata.org/wiki/Q7'',
           str_of ''https://www.wikidata.org/wiki/Q42'']]]\<rparr> = Inr 0"
    by (simp add: one_when_wikidata_link_correct_def loc_item_def URL_def
          del: wikidata_link_loop.simps)
  with example_urls(3) e42
  show "is_substring (str_of ''wikidata'') (str_of ''https://www.wikidata.org/wiki/Q42'')
   \<and> ends_in_qid other_decimal (str_of ''https://www.wikidata.org/wiki/Q42'') (str_of ''Q42'')
   \<and> one_when_wikidata_link_correct other_decimal ((''Q42'', ''T1''), 3 / 10)
       \<lparr>ch_columns = [''url''],
        ch_rows = [''T1'' \<mapsto> [''url'' \<mapsto> Values
          [str_of ''https://www.wikidata.org/wiki/Q7'',
           str_of ''https://www.wikidata.org/wiki/Q42'']]]\<rparr> = Inr 0"
    by blast
qed

text \<open>
  The search also decides for a URL that does not end in ASCII digits: with a final newline,
  and with the digits of another script (here the Arabic-Indic four and two, if the
  interpreter's database lists code points 1632 to 1641 as decimal digits).
\<close>

lemma search_qid_newline:
  "search_qid other_decimal (str_of ''https://www.wikidata.org/wiki/'' @ [81, 55, 10]) = Some [81, 55]"
  using search_qid_at_end [of "[55]" other_decimal "[10]" "str_of ''https://www.wikidata.org/wiki/''"]
  by (simp add: is_digit_def)

lemma search_qid_other_script:
  "search_qid (\<lambda>c. 1632 \<le> c \<and> c \<le> 1641)
     (str_of ''https://www.wikidata.org/wiki/'' @ [81, 1636, 1634]) = Some [81, 1636, 1634]"
  using search_qid_at_end [of "[1636, 1634]" "\<lambda>c. 1632 \<le> c \<and> c \<le> 1641" "[]"
          "str_of ''https://www.wikidata.org/wiki/''"]
  by (simp add: is_digit_def)

section \<open>Properties of the nested cross-validation\<close>

lemma outer_loop_events:
  "snd (outer_loop env folds (result, events)) =
     events @ concat (map (\<lambda>fld. [Grid_search_fit fld, Grid_search_score fld]) folds)"
  by (induction folds arbitrary: result events) (simp_all add: split_def Let_def)

text \<open>For any other classifier the dataset is built first, and every outer fold is run.\<close>

lemma nested_k_fold_with_grid_search_runs:
  assumes "classifier \<noteq> SINGLE_LAYER_PERCEPTRON keys"
    and "classifier \<noteq> MULTI_LAYER_PERCEPTRON keys"
  shows "snd (nested_k_fold_with_grid_search keys env classifier) =
           [Build_dataset, Init_model, Prepare_stratified_k_fold]
           @ concat (map (\<lambda>fld. [Grid_search_fit fld, Grid_search_score fld])
                       (outer_folds env))"
  using assms outer_loop_events [of env "outer_folds env"]
  by (simp add: nested_k_fold_with_grid_search_def split_def)

text \<open>
  Claim C7. Asked for one of the two perceptrons, \<^verbatim>\<open>nested_k_fold_with_grid_search\<close> raises
  \<^verbatim>\<open>NotImplementedError\<close> with a message saying that grid search is not supported for that
  classifier, and it does so before anything else happens: no dataset is built and no fold
  is run.
\<close>

theorem nested_k_fold_with_grid_search_neural:
  assumes "classifier = SINGLE_LAYER_PERCEPTRON keys \<or> classifier = MULTI_LAYER_PERCEPTRON keys"
  shows "nested_k_fold_with_grid_search keys env classifier =
           (Inl (NotImplementedError (''Grid search for '' @ classifier @ '' is not supported'')),
            [])"
  using assms by (auto simp: nested_k_fold_with_grid_search_def)

theorem nested_k_fold_with_grid_search_neural_witness:
  "nested_k_fold_with_grid_search
      \<lparr>SINGLE_LAYER_PERCEPTRON = ''single_layer_perceptron'',
       MULTI_LAYER_PERCEPTRON = ''multi_layer_perceptron''\<rparr>
      \<lparr>outer_folds = [1, 2 :: nat], grid_search_fit = (\<lambda>f. (1 / 2, f)),
       grid_search_score = (\<lambda>f. 1 / 2)\<rparr>
      ''multi_layer_perceptron''
   = (Inl (NotImplementedError ''Grid search for multi_layer_perceptron is not supported''), [])"
  using nested_k_fold_with_grid_search_neural [of "''multi_layer_perceptron''"
      "\<lparr>SINGLE_LAYER_PERCEPTRON = ''single_layer_perceptron'',
        MULTI_LAYER_PERCEPTRON = ''multi_layer_perceptron''\<rparr>"
      "\<lparr>outer_folds = [1, 2 :: nat], grid_search_fit = (\<lambda>f. (1 / 2, f)),
        grid_search_score = (\<lambda>f. 1 / 2)\<rparr>"]
  by simp

end
